theory Spec2Isabelle
  imports Main
begin

section \<open>Schemas (app/schemas/llm_schemas.py)\<close>

text \<open>
  Python's \<open>Any\<close>, as far as JSON request bodies can populate it.
\<close>

datatype Any =
    AnyNone
  | AnyBool bool
  | AnyInt int
  | AnyStr string
  | AnyList "Any list"
  | AnyDict "(string \<times> Any) list"

text \<open>
  \<open>MessageRole\<close> is a plain \<open>str\<close> subclass with four class attributes; a message's
  role is an arbitrary string, not an enumeration.
\<close>

definition USER :: string where "USER = ''user''"
definition ASSISTANT :: string where "ASSISTANT = ''assistant''"
definition SYSTEM :: string where "SYSTEM = ''system''"
definition TOOL :: string where "TOOL = ''tool''"

record ChatMessage =
  role :: string
  content :: string
  tool_calls :: "(string \<times> Any) list list option"
  tool_call_id :: "string option"

record ChatRequest =
  user_id :: string
  user_plan :: string
  history :: "ChatMessage list"
  new_message :: ChatMessage

record TaggingRequest =
  "notes" :: string

record TaggingResponse =
  tags :: "string list"

section \<open>Settings (app/libs/config.py)\<close>

record Settings =
  PORT :: int
  GEMINI_API_KEY :: string
  GEMINI_MODEL :: string
  MAIN_BACKEND_URL :: string
  AI_SERVICE_SECRET_KEY :: string

section \<open>The provider SDK's values, as app/apis/chat.py builds and reads them\<close>

datatype Part =
    Text string
  | FunctionResponse string "(string \<times> string) list"

datatype Content = Content (content_role: string) (parts: "Part list")

datatype ContentUnion = Prompt string | Structured Content

datatype SchemaType = OBJECT | STRING

datatype Schema = Schema
  (schema_type: SchemaType)
  (schema_description: "string option")
  (properties: "(string \<times> Schema) list")
  (required: "string list")

datatype FunctionDeclaration = FunctionDeclaration
  (fd_name: string)
  (fd_description: string)
  (fd_parameters: Schema)

datatype Tool = Tool (function_declarations: "FunctionDeclaration list")

datatype ResponseSchema = TaggingResponseSchema

record GenerateContentConfig =
  system_instruction :: "string option"
  tools :: "Tool list option"
  response_mime_type :: "string option"
  response_schema :: "ResponseSchema option"

record GenerateContentCall =
  model :: string
  contents :: "ContentUnion list"
  config :: "GenerateContentConfig option"

datatype FunctionCall = FunctionCall
  (fc_name: "string option")
  (fc_args: "(string \<times> Any) list option")

record GenerateContentResponse =
  function_calls :: "FunctionCall list option"
  "text" :: "string option"

text \<open>
  What a \<open>try\<close> block can catch: the SDK's \<open>APIError\<close>, pydantic's \<open>ValidationError\<close>
  (tagged with the model class that rejected its input), or any other \<open>Exception\<close>.
\<close>

datatype exn =
    APIError string
  | ValidationError string
  | OtherException string

text \<open>
  \<open>HTTPException.detail\<close> is either a literal or an f-string \<open>f"prefix{e}"\<close>; the
  rendering \<open>str(e)\<close> belongs to the library that raised \<open>e\<close>, so the exception is
  kept as it is.
\<close>

datatype Detail = Literal string | FString string exn

record HTTPException =
  status_code :: nat
  detail :: Detail

definition HTTP_401_UNAUTHORIZED :: nat where "HTTP_401_UNAUTHORIZED = 401"
definition HTTP_500_INTERNAL_SERVER_ERROR :: nat where "HTTP_500_INTERNAL_SERVER_ERROR = 500"
definition HTTP_502_BAD_GATEWAY :: nat where "HTTP_502_BAD_GATEWAY = 502"

section \<open>The world outside the handlers\<close>

text \<open>
  \<open>LLM_CLIENT.models.generate_content\<close> is a remote call: it answers or raises, and the
  provider may change its own state \<open>'p\<close> in doing so. \<open>LLM_CLIENT\<close> is \<open>None\<close> when
  the client's construction raised at import time.

  The world carries the provider's state and two logs that only record what happened:
  every request handed to the provider, and every argument \<open>get_user_trade_summary\<close>
  was awaited with.
\<close>

type_synonym 'p generate_content =
  "GenerateContentCall \<Rightarrow> 'p \<Rightarrow> (exn + GenerateContentResponse) \<times> 'p"

record 'p world =
  provider :: 'p
  gateway_calls :: "GenerateContentCall list"
  tool_invocations :: "string list"

definition generate_content ::
  "'p generate_content \<Rightarrow> GenerateContentCall \<Rightarrow> 'p world
     \<Rightarrow> (exn + GenerateContentResponse) \<times> 'p world" where
  "generate_content client call w =
     (case client call (provider w) of
        (r, p') \<Rightarrow> (r, w\<lparr>provider := p', gateway_calls := gateway_calls w @ [call]\<rparr>))"

section \<open>Strings\<close>

definition nl :: string where "nl = [CHR 0x0A]"

text \<open>
  \<open>str.upper\<close> on the ASCII letters; every other byte is left as it is.
\<close>

definition upper_char :: "char \<Rightarrow> char" where
  "upper_char c =
     (let n = (of_char c :: nat) in if 97 \<le> n \<and> n \<le> 122 then char_of (n - 32) else c)"

definition upper :: "string \<Rightarrow> string" where
  "upper s = map upper_char s"

section \<open>Security dependency (app/apis/chat.py)\<close>

definition verify_internal_auth :: "Settings \<Rightarrow> string \<Rightarrow> HTTPException + bool" where
  "verify_internal_auth settings auth_key =
     (if auth_key \<noteq> AI_SERVICE_SECRET_KEY settings
      then Inl \<lparr>status_code = HTTP_401_UNAUTHORIZED,
                detail = Literal ''Invalid microservice authentication key.''\<rparr>
      else Inr True)"

section \<open>Auto-tagging endpoint\<close>

definition tagging_prompt :: "TaggingRequest \<Rightarrow> string" where
  "tagging_prompt request =
     nl @
     ''    Analyze the following trading journal notes and generate a list of '' @ nl @
     ''    relevant tags. The tags should be short (e.g., 'FOMO', 'Breakout', '' @ nl @
     ''    'Poor Exit', 'Reversal', 'Good R:R'). '' @ nl @
     ''    Only return the JSON object.'' @ nl @
     nl @
     ''    NOTES: '' @ notes request @ nl @
     ''    ''"

text \<open>
  \<open>TaggingResponse.model_validate_json\<close> is pydantic's: it is taken as a parameter that
  either yields the validated tags or fails, and failing raises \<open>ValidationError\<close>.
\<close>

type_synonym model_validate_json = "string option \<Rightarrow> string list option"

definition tagging_query :: "Settings \<Rightarrow> TaggingRequest \<Rightarrow> GenerateContentCall" where
  "tagging_query settings request =
     \<lparr>model = GEMINI_MODEL settings,
      contents = [Prompt (tagging_prompt request)],
      config = Some \<lparr>system_instruction = None, tools = None,
                      response_mime_type = Some ''application/json'',
                      response_schema = Some TaggingResponseSchema\<rparr>\<rparr>"

definition tag_trade ::
  "'p generate_content option \<Rightarrow> Settings \<Rightarrow> model_validate_json \<Rightarrow> TaggingRequest
     \<Rightarrow> 'p world \<Rightarrow> (HTTPException + TaggingResponse) \<times> 'p world" where
  "tag_trade LLM_CLIENT settings validate request w =
     (case LLM_CLIENT of
        None \<Rightarrow>
          (Inl \<lparr>status_code = HTTP_500_INTERNAL_SERVER_ERROR,
                 detail = Literal ''AI Service is not initialized.''\<rparr>, w)
      | Some client \<Rightarrow>
          (case generate_content client (tagging_query settings request) w of
             (Inl (APIError e), w') \<Rightarrow>
               (Inl \<lparr>status_code = HTTP_502_BAD_GATEWAY,
                      detail = FString ''Gemini API Error during tagging: '' (APIError e)\<rparr>, w')
           | (Inl e, w') \<Rightarrow>
               (Inl \<lparr>status_code = HTTP_500_INTERNAL_SERVER_ERROR,
                      detail = FString ''An unexpected error occurred: '' e\<rparr>, w')
           | (Inr response, w') \<Rightarrow>
               (case validate (text response) of
                  Some ts \<Rightarrow> (Inr \<lparr>tags = ts\<rparr>, w')
                | None \<Rightarrow>
                    (Inl \<lparr>status_code = HTTP_500_INTERNAL_SERVER_ERROR,
                           detail = FString ''An unexpected error occurred: ''
                                      (ValidationError ''TaggingResponse'')\<rparr>, w'))))"

section \<open>Chat and tool calling endpoint\<close>

definition get_user_trade_summary :: "string \<Rightarrow> string" where
  "get_user_trade_summary uid =
     nl @
     ''        [Anonymized Trade Summary for ID '' @ uid @ '']:'' @ nl @
     ''        - Total Trades in Q4: 150'' @ nl @
     ''        - Net P/L: +$12,500'' @ nl @
     ''        - Best Strategy: Breakout (70% Win Rate)'' @ nl @
     ''        - Worst Mistake: Over-leveraging on Fridays.'' @ nl @
     ''    ''"

text \<open>Awaiting the tool: its result, and the call recorded in the world.\<close>

definition await_get_user_trade_summary :: "string \<Rightarrow> 'p world \<Rightarrow> string \<times> 'p world" where
  "await_get_user_trade_summary uid w =
     (get_user_trade_summary uid, w\<lparr>tool_invocations := tool_invocations w @ [uid]\<rparr>)"

definition TOOL_CONFIG :: Tool where
  "TOOL_CONFIG = Tool
     [FunctionDeclaration ''get_user_trade_summary''
        (''Use this tool to fetch the user's current, anonymized trading performance '' @
         ''summary (PNL, best strategy, mistakes) from the database to answer analytical '' @
         ''questions.'')
        (Schema OBJECT None
           [(''user_id'',
             Schema STRING
               (Some ''The anonymous ID of the user whose data should be retrieved.'') [] [])]
           [''user_id''])]"

definition provider_role :: "ChatMessage \<Rightarrow> string" where
  "provider_role msg = (if role msg \<in> set [USER, TOOL] then ''user'' else ''model'')"

definition gemini_contents :: "ChatRequest \<Rightarrow> Content list" where
  "gemini_contents request =
     map (\<lambda>msg. Content (provider_role msg) [Text (content msg)]) (history request)"

definition system_instruction_text :: "ChatRequest \<Rightarrow> string" where
  "system_instruction_text request =
     nl @
     ''    You are TradeLM, an expert AI Trading Analyst. Your persona is professional, '' @ nl @
     ''    data-driven, and focused on helping the user improve their trading performance. '' @ nl @
     ''    The user's current plan is: '' @ upper (user_plan request) @ ''.'' @ nl @
     ''    If the user asks an analytical question (e.g., 'What is my win rate?', 'Why did I lose money?'), '' @ nl @
     ''    you MUST use the available tool: 'get_user_trade_summary' to gather data '' @ nl @
     ''    before generating your final answer.'' @ nl @
     ''    ''"

definition first_query :: "Settings \<Rightarrow> ChatRequest \<Rightarrow> GenerateContentCall" where
  "first_query settings request =
     \<lparr>model = GEMINI_MODEL settings,
      contents = map Structured (gemini_contents request),
      config = Some \<lparr>system_instruction = Some (system_instruction_text request),
                      tools = Some [TOOL_CONFIG],
                      response_mime_type = None,
                      response_schema = None\<rparr>\<rparr>"

definition second_query :: "Settings \<Rightarrow> ChatRequest \<Rightarrow> string \<Rightarrow> GenerateContentCall" where
  "second_query settings request tool_output =
     \<lparr>model = GEMINI_MODEL settings,
      contents = map Structured
        (gemini_contents request @
           [Content ''tool''
              [FunctionResponse ''get_user_trade_summary'' [(''summary'', tool_output)]]]),
      config = None\<rparr>"

text \<open>
  The two \<open>except\<close> clauses of \<open>chat_with_ai\<close>.
\<close>

definition chat_except :: "exn \<Rightarrow> HTTPException" where
  "chat_except e =
     (case e of
        APIError _ \<Rightarrow>
          \<lparr>status_code = HTTP_502_BAD_GATEWAY, detail = FString ''Gemini API Error: '' e\<rparr>
      | _ \<Rightarrow>
          \<lparr>status_code = HTTP_500_INTERNAL_SERVER_ERROR,
           detail = FString ''An unexpected error occurred in the chat processing flow: '' e\<rparr>)"

text \<open>
  \<open>ChatMessage(role=MessageRole.ASSISTANT, content=response_text)\<close>, inside the \<open>try\<close>:
  \<open>content\<close> is a required \<open>str\<close>, so a response without text makes pydantic raise.
\<close>

definition assistant_message :: "string option \<Rightarrow> HTTPException + ChatMessage" where
  "assistant_message response_text =
     (case response_text of
        None \<Rightarrow> Inl (chat_except (ValidationError ''ChatMessage''))
      | Some t \<Rightarrow>
          Inr \<lparr>role = ASSISTANT, content = t, tool_calls = None, tool_call_id = None\<rparr>)"

definition chat_with_ai ::
  "'p generate_content option \<Rightarrow> Settings \<Rightarrow> string \<Rightarrow> ChatRequest
     \<Rightarrow> 'p world \<Rightarrow> (HTTPException + ChatMessage) \<times> 'p world" where
  "chat_with_ai LLM_CLIENT settings session_id request w =
     (case LLM_CLIENT of
        None \<Rightarrow>
          (Inl \<lparr>status_code = HTTP_500_INTERNAL_SERVER_ERROR,
                 detail = Literal ''AI Service is not initialized.''\<rparr>, w)
      | Some client \<Rightarrow>
          (case generate_content client (first_query settings request) w of
             (Inl e, w1) \<Rightarrow> (Inl (chat_except e), w1)
           | (Inr gemini_response, w1) \<Rightarrow>
               (case function_calls gemini_response of
                  Some (first_call # _) \<Rightarrow>
                    if fc_name first_call = Some ''get_user_trade_summary'' then
                      (case await_get_user_trade_summary (user_id request) w1 of
                         (tool_output, w2) \<Rightarrow>
                           (case generate_content client
                                   (second_query settings request tool_output) w2 of
                              (Inl e, w3) \<Rightarrow> (Inl (chat_except e), w3)
                            | (Inr tool_response, w3) \<Rightarrow>
                                (assistant_message (text tool_response), w3)))
                    else (assistant_message (Some ''ERROR: Unknown tool requested.''), w1)
                | _ \<Rightarrow> (assistant_message (text gemini_response), w1))))"

section \<open>The protected routes\<close>

text \<open>
  Both routes are registered with \<open>dependencies=[VerifyInternalAuth]\<close>: the framework
  reads the header \<open>X-Microservice-Auth\<close>, a required parameter of the dependency, and
  runs the dependency before the handler. A request without the header never reaches
  \<open>verify_internal_auth\<close>: the framework answers it itself with a request-validation
  error.
\<close>

datatype 'a Response =
    RequestValidationError
  | Raised HTTPException
  | Returned 'a

definition respond :: "(HTTPException + 'a) \<times> 'w \<Rightarrow> 'a Response \<times> 'w" where
  "respond rw = (case rw of (Inl e, w) \<Rightarrow> (Raised e, w) | (Inr v, w) \<Rightarrow> (Returned v, w))"

definition route_tag_trade ::
  "'p generate_content option \<Rightarrow> Settings \<Rightarrow> model_validate_json \<Rightarrow> string option
     \<Rightarrow> TaggingRequest \<Rightarrow> 'p world \<Rightarrow> TaggingResponse Response \<times> 'p world" where
  "route_tag_trade LLM_CLIENT settings validate header request w =
     (case header of
        None \<Rightarrow> (RequestValidationError, w)
      | Some auth_key \<Rightarrow>
          (case verify_internal_auth settings auth_key of
             Inl e \<Rightarrow> (Raised e, w)
           | Inr _ \<Rightarrow> respond (tag_trade LLM_CLIENT settings validate request w)))"

definition route_chat ::
  "'p generate_content option \<Rightarrow> Settings \<Rightarrow> string option \<Rightarrow> string
     \<Rightarrow> ChatRequest \<Rightarrow> 'p world \<Rightarrow> ChatMessage Response \<times> 'p world" where
  "route_chat LLM_CLIENT settings header session_id request w =
     (case header of
        None \<Rightarrow> (RequestValidationError, w)
      | Some auth_key \<Rightarrow>
          (case verify_internal_auth settings auth_key of
             Inl e \<Rightarrow> (Raised e, w)
           | Inr _ \<Rightarrow> respond (chat_with_ai LLM_CLIENT settings session_id request w)))"

section \<open>Concrete runs\<close>

text \<open>
  A provider for concrete runs: it answers its n-th request with the n-th entry of a
  fixed list, whatever the request, and counts the requests it has served.
\<close>

definition scripted :: "(exn + GenerateContentResponse) list \<Rightarrow> nat generate_content" where
  "scripted answers call n =
     (if n < length answers then answers ! n else Inl (OtherException ''script exhausted''),
      Suc n)"

definition settings0 :: Settings where
  "settings0 =
     \<lparr>PORT = 8001, GEMINI_API_KEY = ''api-key'', GEMINI_MODEL = ''gemini-2.5-flash'',
      MAIN_BACKEND_URL = ''http://localhost:8000'', AI_SERVICE_SECRET_KEY = ''s3cret''\<rparr>"

definition world0 :: "nat world" where
  "world0 = \<lparr>provider = 0, gateway_calls = [], tool_invocations = []\<rparr>"

definition user_message :: "string \<Rightarrow> ChatMessage" where
  "user_message t = \<lparr>role = USER, content = t, tool_calls = None, tool_call_id = None\<rparr>"

definition assistant_reply :: "string \<Rightarrow> ChatMessage" where
  "assistant_reply t = \<lparr>role = ASSISTANT, content = t, tool_calls = None, tool_call_id = None\<rparr>"

text \<open>The scenario of the specification: one question in the history, asked by user \<open>u1\<close>.\<close>

definition win_rate_request :: ChatRequest where
  "win_rate_request =
     \<lparr>user_id = ''u1'', user_plan = ''pro'',
      history = [user_message ''What's my win rate?''],
      new_message = user_message ''And my worst mistake?''\<rparr>"

text \<open>A first turn: nothing in the history, the question in \<open>new_message\<close>.\<close>

definition first_turn_request :: ChatRequest where
  "first_turn_request =
     \<lparr>user_id = ''u1'', user_plan = ''free'',
      history = [],
      new_message = user_message ''What's my win rate?''\<rparr>"

definition tool_call_answer :: "string \<Rightarrow> string \<Rightarrow> exn + GenerateContentResponse" where
  "tool_call_answer tool uid =
     Inr \<lparr>function_calls = Some [FunctionCall (Some tool) (Some [(''user_id'', AnyStr uid)])],
          text = None\<rparr>"

definition text_answer :: "string \<Rightarrow> exn + GenerateContentResponse" where
  "text_answer t = Inr \<lparr>function_calls = None, text = Some t\<rparr>"

text \<open>
  A stand-in for pydantic's validator on the two texts used below: it accepts the one
  document \<open>{"tags": ["FOMO"]}\<close> and rejects everything else, a missing text included.
\<close>

definition validate0 :: model_validate_json where
  \<open>validate0 t = (if t = Some ''{"tags": ["FOMO"]}'' then Some [''FOMO''] else None)\<close>

definition fear_notes :: TaggingRequest where
  "fear_notes = \<lparr>notes = ''Sold too early out of fear''\<rparr>"

text \<open>A history with one message of each of the four roles.\<close>

definition four_roles_request :: ChatRequest where
  "four_roles_request =
     \<lparr>user_id = ''u1'', user_plan = ''pro'',
      history =
        [\<lparr>role = SYSTEM, content = ''Be brief.'', tool_calls = None, tool_call_id = None\<rparr>,
         user_message ''What's my win rate?'',
         assistant_reply ''Let me look.'',
         \<lparr>role = TOOL, content = ''Win rate 70%'', tool_calls = None,
          tool_call_id = Some ''call-1''\<rparr>],
      new_message = user_message ''Thanks.''\<rparr>"

section \<open>How a chat request runs\<close>

lemma chat_first_query_fails:
  assumes "client (first_query settings request) (provider w) = (Inl e, p1)"
  shows "chat_with_ai (Some client) settings session_id request w =
           (Inl (chat_except e),
            w\<lparr>provider := p1,
              gateway_calls := gateway_calls w @ [first_query settings request]\<rparr>)"
  using assms by (simp add: chat_with_ai_def generate_content_def)

lemma chat_registered_tool:
  assumes first: "client (first_query settings request) (provider w) = (Inr r1, p1)"
    and calls: "function_calls r1 = Some (first_call # rest)"
    and name: "fc_name first_call = Some ''get_user_trade_summary''"
    and second: "client (second_query settings request
                   (get_user_trade_summary (user_id request))) p1 = (res2, p2)"
  shows "chat_with_ai (Some client) settings session_id request w =
           (case res2 of
              Inl e \<Rightarrow> Inl (chat_except e)
            | Inr tool_response \<Rightarrow> assistant_message (text tool_response),
            w\<lparr>provider := p2,
              gateway_calls := gateway_calls w @
                [first_query settings request,
                 second_query settings request (get_user_trade_summary (user_id request))],
              tool_invocations := tool_invocations w @ [user_id request]\<rparr>)"
  using assms
  by (simp add: chat_with_ai_def generate_content_def await_get_user_trade_summary_def
           split: sum.split)

lemma chat_unknown_tool:
  assumes first: "client (first_query settings request) (provider w) = (Inr r1, p1)"
    and calls: "function_calls r1 = Some (first_call # rest)"
    and name: "fc_name first_call \<noteq> Some ''get_user_trade_summary''"
  shows "chat_with_ai (Some client) settings session_id request w =
           (assistant_message (Some ''ERROR: Unknown tool requested.''),
            w\<lparr>provider := p1,
              gateway_calls := gateway_calls w @ [first_query settings request]\<rparr>)"
  using assms by (simp add: chat_with_ai_def generate_content_def)

lemma chat_no_tool_call:
  assumes first: "client (first_query settings request) (provider w) = (Inr r1, p1)"
    and calls: "function_calls r1 = None \<or> function_calls r1 = Some []"
  shows "chat_with_ai (Some client) settings session_id request w =
           (assistant_message (text r1),
            w\<lparr>provider := p1,
              gateway_calls := gateway_calls w @ [first_query settings request]\<rparr>)"
  using assms by (auto simp add: chat_with_ai_def generate_content_def)

lemma tag_trade_answered:
  assumes "client (tagging_query settings request) (provider w) = (Inr response, p1)"
  shows "tag_trade (Some client) settings validate request w =
           (case validate (text response) of
              Some ts \<Rightarrow> Inr \<lparr>tags = ts\<rparr>
            | None \<Rightarrow>
                Inl \<lparr>status_code = HTTP_500_INTERNAL_SERVER_ERROR,
                     detail = FString ''An unexpected error occurred: ''
                                (ValidationError ''TaggingResponse'')\<rparr>,
            w\<lparr>provider := p1,
              gateway_calls := gateway_calls w @ [tagging_query settings request]\<rparr>)"
  using assms by (simp add: tag_trade_def generate_content_def split: option.split)

section \<open>The claims\<close>

text \<open>
  C1. When the first completion asks for the registered tool \<open>get_user_trade_summary\<close>,
  the tool is awaited exactly once, the provider's \<open>generate_content\<close> is called exactly
  twice (the first query, then the query carrying the tool's output), and a returned
  assistant message has the text of the second completion as its content. The message is
  returned whenever the second completion has a text.
\<close>

theorem registered_tool_round_trip:
  assumes "client (first_query settings request) (provider w) = (Inr r1, p1)"
    and "function_calls r1 = Some (first_call # rest)"
    and "fc_name first_call = Some ''get_user_trade_summary''"
    and "client (second_query settings request
           (get_user_trade_summary (user_id request))) p1 = (res2, p2)"
    and "chat_with_ai (Some client) settings session_id request w = (result, w')"
  shows "length (tool_invocations w') = length (tool_invocations w) + 1
       \<and> length (gateway_calls w') = length (gateway_calls w) + 2
       \<and> gateway_calls w' = gateway_calls w @
            [first_query settings request,
             second_query settings request (get_user_trade_summary (user_id request))]
       \<and> (\<forall>m. result = Inr m \<longrightarrow>
             role m = ASSISTANT \<and> (\<exists>r2. res2 = Inr r2 \<and> text r2 = Some (content m)))
       \<and> (\<forall>r2 t. res2 = Inr r2 \<and> text r2 = Some t \<longrightarrow>
             result = Inr \<lparr>role = ASSISTANT, content = t,
                           tool_calls = None, tool_call_id = None\<rparr>)"
proof -
  from chat_registered_tool
    [where client = client and settings = settings and request = request and w = w
       and session_id = session_id, OF assms(1-4)] assms(5)
  have res: "result = (case res2 of Inl e \<Rightarrow> Inl (chat_except e)
                       | Inr tool_response \<Rightarrow> assistant_message (text tool_response))"
    and w': "w' = w\<lparr>provider := p2,
               gateway_calls := gateway_calls w @
                 [first_query settings request,
                  second_query settings request (get_user_trade_summary (user_id request))],
               tool_invocations := tool_invocations w @ [user_id request]\<rparr>"
    by simp_all
  have "\<forall>m. result = Inr m \<longrightarrow>
          role m = ASSISTANT \<and> (\<exists>r2. res2 = Inr r2 \<and> text r2 = Some (content m))"
    unfolding res by (auto simp add: assistant_message_def split: sum.splits option.splits)
  moreover have "\<forall>r2 t. res2 = Inr r2 \<and> text r2 = Some t \<longrightarrow>
          result = Inr \<lparr>role = ASSISTANT, content = t, tool_calls = None, tool_call_id = None\<rparr>"
    unfolding res by (auto simp add: assistant_message_def)
  ultimately show ?thesis by (simp add: w')
qed

theorem registered_tool_round_trip_witness:
  "fst (chat_with_ai
          (Some (scripted [tool_call_answer ''get_user_trade_summary'' ''u1'',
                           text_answer ''Your win rate is 70%.'']))
          settings0 ''session-1'' win_rate_request world0)
     = Inr \<lparr>role = ''assistant'', content = ''Your win rate is 70%.'',
            tool_calls = None, tool_call_id = None\<rparr>
   \<and> length (tool_invocations (snd (chat_with_ai
          (Some (scripted [tool_call_answer ''get_user_trade_summary'' ''u1'',
                           text_answer ''Your win rate is 70%.'']))
          settings0 ''session-1'' win_rate_request world0))) = 1
   \<and> length (gateway_calls (snd (chat_with_ai
          (Some (scripted [tool_call_answer ''get_user_trade_summary'' ''u1'',
                           text_answer ''Your win rate is 70%.'']))
          settings0 ''session-1'' win_rate_request world0))) = 2"
proof -
  let ?client = "scripted [tool_call_answer ''get_user_trade_summary'' ''u1'',
                           text_answer ''Your win rate is 70%.'']"
  let ?run = "chat_with_ai (Some ?client) settings0 ''session-1'' win_rate_request world0"
  have h1: "?client (first_query settings0 win_rate_request) (provider world0) =
              (Inr \<lparr>function_calls =
                      Some [FunctionCall (Some ''get_user_trade_summary'')
                              (Some [(''user_id'', AnyStr ''u1'')])],
                    text = None\<rparr>, Suc 0)"
    by (simp add: scripted_def world0_def tool_call_answer_def)
  have h2: "function_calls
              \<lparr>function_calls =
                 Some [FunctionCall (Some ''get_user_trade_summary'')
                         (Some [(''user_id'', AnyStr ''u1'')])],
               text = None\<rparr> =
            Some (FunctionCall (Some ''get_user_trade_summary'')
                    (Some [(''user_id'', AnyStr ''u1'')]) # [])"
    by simp
  have h3: "fc_name (FunctionCall (Some ''get_user_trade_summary'')
                       (Some [(''user_id'', AnyStr ''u1'')])) =
            Some ''get_user_trade_summary''"
    by simp
  have h4: "?client (second_query settings0 win_rate_request
                       (get_user_trade_summary (user_id win_rate_request))) (Suc 0) =
              (Inr \<lparr>function_calls = None, text = Some ''Your win rate is 70%.''\<rparr>, Suc (Suc 0))"
    by (simp add: scripted_def text_answer_def)
  have h5: "?run = (fst ?run, snd ?run)"
    by simp
  from registered_tool_round_trip
    [where client = ?client and settings = settings0 and request = win_rate_request
       and w = world0, OF h1 h2 h3 h4 h5]
  show ?thesis
    by (simp add: world0_def ASSISTANT_def)
qed

text \<open>
  C2 (as stated): the tool is awaited with the \<open>user_id\<close> found in the arguments of the
  model's function call. The code never reads those arguments: a completion asking for
  user \<open>u2\<close>, in a request made for user \<open>u1\<close>, has the tool awaited with \<open>u1\<close>.
\<close>

theorem model_arguments_ignored_counterexample:
  "fst (scripted [tool_call_answer ''get_user_trade_summary'' ''u2'', text_answer ''Done.'']
          (first_query settings0 win_rate_request) 0)
     = Inr \<lparr>function_calls =
              Some [FunctionCall (Some ''get_user_trade_summary'')
                      (Some [(''user_id'', AnyStr ''u2'')])],
            text = None\<rparr>
   \<and> tool_invocations (snd (chat_with_ai
          (Some (scripted [tool_call_answer ''get_user_trade_summary'' ''u2'',
                           text_answer ''Done.'']))
          settings0 ''session-1'' win_rate_request world0)) = [''u1'']
   \<and> tool_invocations (snd (chat_with_ai
          (Some (scripted [tool_call_answer ''get_user_trade_summary'' ''u2'',
                           text_answer ''Done.'']))
          settings0 ''session-1'' win_rate_request world0)) \<noteq> [''u2'']"
  by (simp add: chat_with_ai_def generate_content_def await_get_user_trade_summary_def
        scripted_def tool_call_answer_def text_answer_def world0_def win_rate_request_def
        assistant_message_def)

text \<open>
  C2 (amended): when the first completion asks for the registered tool, the tool is
  awaited with the \<open>user_id\<close> of the ChatRequest, whatever arguments the model supplied,
  and the second query carries the summary computed for that \<open>user_id\<close>.
\<close>

theorem tool_awaited_with_request_user_id:
  assumes "client (first_query settings request) (provider w) = (Inr r1, p1)"
    and "function_calls r1 =
           Some (FunctionCall (Some ''get_user_trade_summary'') args # rest)"
  shows "tool_invocations (snd (chat_with_ai (Some client) settings session_id request w)) =
           tool_invocations w @ [user_id request]
       \<and> last (gateway_calls (snd (chat_with_ai (Some client) settings session_id request w))) =
           second_query settings request (get_user_trade_summary (user_id request))"
proof -
  obtain res2 p2 where
    second: "client (second_query settings request
               (get_user_trade_summary (user_id request))) p1 = (res2, p2)"
    by (cases "client (second_query settings request
               (get_user_trade_summary (user_id request))) p1")
  have name: "fc_name (FunctionCall (Some ''get_user_trade_summary'') args) =
                Some ''get_user_trade_summary''"
    by simp
  show ?thesis
    by (simp add: chat_registered_tool
          [where client = client and settings = settings and request = request and w = w,
           OF assms(1) assms(2) name second])
qed

theorem tool_awaited_with_request_user_id_witness:
  "tool_invocations (snd (chat_with_ai
      (Some (scripted [tool_call_answer ''get_user_trade_summary'' ''u2'',
                       text_answer ''Done.'']))
      settings0 ''session-1'' win_rate_request world0)) = [''u1'']
   \<and> last (gateway_calls (snd (chat_with_ai
      (Some (scripted [tool_call_answer ''get_user_trade_summary'' ''u2'',
                       text_answer ''Done.'']))
      settings0 ''session-1'' win_rate_request world0))) =
       second_query settings0 win_rate_request (get_user_trade_summary ''u1'')"
proof -
  let ?client = "scripted [tool_call_answer ''get_user_trade_summary'' ''u2'',
                           text_answer ''Done.'']"
  have h1: "?client (first_query settings0 win_rate_request) (provider world0) =
              (Inr \<lparr>function_calls =
                      Some [FunctionCall (Some ''get_user_trade_summary'')
                              (Some [(''user_id'', AnyStr ''u2'')])],
                    text = None\<rparr>, Suc 0)"
    by (simp add: scripted_def world0_def tool_call_answer_def)
  have h2: "function_calls
              \<lparr>function_calls =
                 Some [FunctionCall (Some ''get_user_trade_summary'')
                         (Some [(''user_id'', AnyStr ''u2'')])],
               text = None\<rparr> =
            Some (FunctionCall (Some ''get_user_trade_summary'')
                    (Some [(''user_id'', AnyStr ''u2'')]) # [])"
    by simp
  from tool_awaited_with_request_user_id
    [where client = ?client and settings = settings0 and request = win_rate_request
       and w = world0 and session_id = "''session-1''", OF h1 h2]
  show ?thesis
    by (simp add: world0_def win_rate_request_def)
qed

text \<open>
  C3: the first query should carry the history with \<open>new_message\<close> appended. The handler
  builds the query from \<open>history\<close> alone and never reads \<open>new_message\<close>: on a first turn
  (empty history, the question in \<open>new_message\<close>) the provider is sent no message at all.
\<close>

theorem first_turn_sends_no_message:
  "content (new_message first_turn_request) = ''What's my win rate?''
   \<and> contents (first_query settings0 first_turn_request) = []
   \<and> map contents (gateway_calls (snd (chat_with_ai
        (Some (scripted [text_answer ''Hello.'']))
        settings0 ''session-1'' first_turn_request world0))) = [[]]"
  by (simp add: chat_with_ai_def generate_content_def scripted_def text_answer_def
        world0_def first_turn_request_def first_query_def gemini_contents_def
        user_message_def assistant_message_def)

text \<open>
  C4. When the first completion asks for a tool whose name is not the registered one,
  the handler returns the assistant message \<open>ERROR: Unknown tool requested.\<close>: the
  provider has been called exactly once, the tool has not been awaited, and the route
  answers with that message, not with an HTTP error.
\<close>

theorem unknown_tool_fallback:
  assumes "client (first_query settings request) (provider w) = (Inr r1, p1)"
    and "function_calls r1 = Some (first_call # rest)"
    and "fc_name first_call \<noteq> Some ''get_user_trade_summary''"
    and "chat_with_ai (Some client) settings session_id request w = (result, w')"
  shows "result = Inr \<lparr>role = ASSISTANT, content = ''ERROR: Unknown tool requested.'',
                       tool_calls = None, tool_call_id = None\<rparr>
       \<and> gateway_calls w' = gateway_calls w @ [first_query settings request]
       \<and> length (gateway_calls w') = length (gateway_calls w) + 1
       \<and> tool_invocations w' = tool_invocations w
       \<and> fst (route_chat (Some client) settings (Some (AI_SERVICE_SECRET_KEY settings))
                session_id request w) =
           Returned \<lparr>role = ASSISTANT, content = ''ERROR: Unknown tool requested.'',
                     tool_calls = None, tool_call_id = None\<rparr>"
  using chat_unknown_tool
      [where client = client and settings = settings and request = request and w = w
         and session_id = session_id, OF assms(1-3)] assms(4)
  by (auto simp add: assistant_message_def route_chat_def verify_internal_auth_def
        respond_def)

theorem unknown_tool_fallback_witness:
  "chat_with_ai (Some (scripted [tool_call_answer ''delete_all_trades'' ''u1'']))
     settings0 ''session-1'' win_rate_request world0 =
     (Inr \<lparr>role = ''assistant'', content = ''ERROR: Unknown tool requested.'',
           tool_calls = None, tool_call_id = None\<rparr>,
      \<lparr>provider = Suc 0, gateway_calls = [first_query settings0 win_rate_request],
       tool_invocations = []\<rparr>)"
proof -
  let ?client = "scripted [tool_call_answer ''delete_all_trades'' ''u1'']"
  let ?run = "chat_with_ai (Some ?client) settings0 ''session-1'' win_rate_request world0"
  have h1: "?client (first_query settings0 win_rate_request) (provider world0) =
              (Inr \<lparr>function_calls =
                      Some [FunctionCall (Some ''delete_all_trades'')
                              (Some [(''user_id'', AnyStr ''u1'')])],
                    text = None\<rparr>, Suc 0)"
    by (simp add: scripted_def world0_def tool_call_answer_def)
  have h2: "function_calls
              \<lparr>function_calls =
                 Some [FunctionCall (Some ''delete_all_trades'')
                         (Some [(''user_id'', AnyStr ''u1'')])],
               text = None\<rparr> =
            Some (FunctionCall (Some ''delete_all_trades'')
                    (Some [(''user_id'', AnyStr ''u1'')]) # [])"
    by simp
  have h3: "fc_name (FunctionCall (Some ''delete_all_trades'')
                       (Some [(''user_id'', AnyStr ''u1'')])) \<noteq>
            Some ''get_user_trade_summary''"
    by simp
  have h4: "?run = (fst ?run, snd ?run)"
    by simp
  have p: "provider (snd ?run) = Suc 0"
    by (simp add: chat_unknown_tool
          [where client = ?client and settings = settings0 and request = win_rate_request
             and w = world0, OF h1 h2 h3])
  from unknown_tool_fallback
    [where client = ?client and settings = settings0 and request = win_rate_request
       and w = world0, OF h1 h2 h3 h4] p
  have "fst ?run = Inr \<lparr>role = ''assistant'', content = ''ERROR: Unknown tool requested.'',
                        tool_calls = None, tool_call_id = None\<rparr>"
    and "snd ?run = \<lparr>provider = Suc 0, gateway_calls = [first_query settings0 win_rate_request],
                     tool_invocations = []\<rparr>"
    by (simp_all add: world0_def ASSISTANT_def world.equality)
  then show ?thesis
    by (simp add: prod_eq_iff)
qed

text \<open>
  C5. When the first completion is plain text (it requests no function call), the
  handler returns that text verbatim as the assistant message; the tool is not awaited
  and the provider has been called once.
\<close>

theorem plain_text_verbatim:
  assumes "client (first_query settings request) (provider w) = (Inr r1, p1)"
    and "function_calls r1 = None \<or> function_calls r1 = Some []"
    and "text r1 = Some t"
    and "chat_with_ai (Some client) settings session_id request w = (result, w')"
  shows "result = Inr \<lparr>role = ASSISTANT, content = t,
                       tool_calls = None, tool_call_id = None\<rparr>
       \<and> tool_invocations w' = tool_invocations w
       \<and> gateway_calls w' = gateway_calls w @ [first_query settings request]"
  using chat_no_tool_call
      [where client = client and settings = settings and request = request and w = w
         and session_id = session_id, OF assms(1,2)] assms(3,4)
  by (auto simp add: assistant_message_def)

theorem plain_text_verbatim_witness:
  "fst (chat_with_ai (Some (scripted [text_answer ''Cut your losers early.'']))
          settings0 ''session-1'' win_rate_request world0) =
     Inr \<lparr>role = ''assistant'', content = ''Cut your losers early.'',
          tool_calls = None, tool_call_id = None\<rparr>
   \<and> tool_invocations (snd (chat_with_ai (Some (scripted [text_answer ''Cut your losers early.'']))
          settings0 ''session-1'' win_rate_request world0)) = []
   \<and> gateway_calls (snd (chat_with_ai (Some (scripted [text_answer ''Cut your losers early.'']))
          settings0 ''session-1'' win_rate_request world0)) =
       [first_query settings0 win_rate_request]"
proof -
  let ?client = "scripted [text_answer ''Cut your losers early.'']"
  let ?run = "chat_with_ai (Some ?client) settings0 ''session-1'' win_rate_request world0"
  have h1: "?client (first_query settings0 win_rate_request) (provider world0) =
              (Inr \<lparr>function_calls = None, text = Some ''Cut your losers early.''\<rparr>, Suc 0)"
    by (simp add: scripted_def world0_def text_answer_def)
  have h2: "function_calls \<lparr>function_calls = None, text = Some ''Cut your losers early.''\<rparr> = None
          \<or> function_calls \<lparr>function_calls = None, text = Some ''Cut your losers early.''\<rparr>
               = Some []"
    by simp
  have h3: "text \<lparr>function_calls = None, text = Some ''Cut your losers early.''\<rparr> =
              Some ''Cut your losers early.''"
    by simp
  have h4: "?run = (fst ?run, snd ?run)"
    by simp
  from plain_text_verbatim
    [where client = ?client and settings = settings0 and request = win_rate_request
       and w = world0, OF h1 h2 h3 h4]
  show ?thesis
    by (simp add: world0_def ASSISTANT_def)
qed

text \<open>
  C6. The role mapping is a function of the message's role alone: a message whose role
  is \<open>user\<close> or \<open>tool\<close> is sent with the provider role \<open>user\<close>, a message with any
  other role, \<open>assistant\<close> and \<open>system\<close> among them, with the provider role \<open>model\<close>;
  the first query holds one entry for each message of the history, in order, with the
  role so mapped.
\<close>

theorem role_mapping_total:
  "(role m = USER \<or> role m = TOOL \<longrightarrow> provider_role m = ''user'')
   \<and> (role m = ASSISTANT \<or> role m = SYSTEM \<longrightarrow> provider_role m = ''model'')
   \<and> (role m \<noteq> USER \<and> role m \<noteq> TOOL \<longrightarrow> provider_role m = ''model'')
   \<and> (role m = role m' \<longrightarrow> provider_role m = provider_role m')
   \<and> length (gemini_contents request) = length (history request)
   \<and> map content_role (gemini_contents request) = map provider_role (history request)"
  by (auto simp add: provider_role_def gemini_contents_def USER_def TOOL_def ASSISTANT_def
        SYSTEM_def)

theorem role_mapping_total_witness:
  "provider_role (user_message ''What's my win rate?'') = ''user''
   \<and> provider_role (assistant_reply ''Let me look.'') = ''model''
   \<and> map content_role (gemini_contents four_roles_request) =
       [''model'', ''user'', ''model'', ''user'']"
  using role_mapping_total [of "user_message ''What's my win rate?''" _ four_roles_request]
    role_mapping_total [of "assistant_reply ''Let me look.''" _ four_roles_request]
  by (simp add: user_message_def assistant_reply_def four_roles_request_def provider_role_def
        USER_def TOOL_def ASSISTANT_def SYSTEM_def)

text \<open>
  C7 (as stated): a structured-output response that does not validate makes tagging fail
  with status 502. The code answers 500: pydantic's \<open>ValidationError\<close> is not an
  \<open>APIError\<close>, so the generic \<open>except Exception\<close> clause handles it.
\<close>

theorem malformed_tags_counterexample:
  "validate0 (Some ''not json'') = None
   \<and> fst (tag_trade (Some (scripted [text_answer ''not json''])) settings0 validate0
            fear_notes world0) =
       Inl \<lparr>status_code = 500,
            detail = FString ''An unexpected error occurred: ''
                       (ValidationError ''TaggingResponse'')\<rparr>"
  by (simp add: tag_trade_def generate_content_def scripted_def text_answer_def world0_def
        validate0_def HTTP_500_INTERNAL_SERVER_ERROR_def)

text \<open>
  C7 (amended): when the provider answers and its text does not validate against the
  TaggingResponse schema, tagging fails with status 500 and the detail of the generic
  handler, after the one provider call; no tags are returned in place of the failure.
\<close>

theorem malformed_tags_unexpected_error:
  assumes "client (tagging_query settings request) (provider w) = (Inr response, p1)"
    and "validate (text response) = None"
  shows "tag_trade (Some client) settings validate request w =
           (Inl \<lparr>status_code = 500,
                 detail = FString ''An unexpected error occurred: ''
                            (ValidationError ''TaggingResponse'')\<rparr>,
            w\<lparr>provider := p1,
              gateway_calls := gateway_calls w @ [tagging_query settings request]\<rparr>)"
  using tag_trade_answered
      [where client = client and settings = settings and request = request and w = w
         and validate = validate, OF assms(1)] assms(2)
  by (simp add: HTTP_500_INTERNAL_SERVER_ERROR_def)

theorem malformed_tags_unexpected_error_witness:
  "tag_trade (Some (scripted [text_answer ''not json''])) settings0 validate0 fear_notes world0 =
     (Inl \<lparr>status_code = 500,
           detail = FString ''An unexpected error occurred: ''
                      (ValidationError ''TaggingResponse'')\<rparr>,
      \<lparr>provider = Suc 0, gateway_calls = [tagging_query settings0 fear_notes],
       tool_invocations = []\<rparr>)"
proof -
  let ?client = "scripted [text_answer ''not json'']"
  have h1: "?client (tagging_query settings0 fear_notes) (provider world0) =
              (Inr \<lparr>function_calls = None, text = Some ''not json''\<rparr>, Suc 0)"
    by (simp add: scripted_def world0_def text_answer_def)
  have h2: "validate0 (text \<lparr>function_calls = None, text = Some ''not json''\<rparr>) = None"
    by (simp add: validate0_def)
  from malformed_tags_unexpected_error
    [where client = ?client and settings = settings0 and request = fear_notes
       and w = world0 and validate = validate0, OF h1 h2]
  show ?thesis
    by (simp add: world0_def)
qed

text \<open>
  C8. When the provider client failed to initialise (\<open>LLM_CLIENT\<close> is \<open>None\<close>), the
  tagging handler and the chat handler both fail with status 500, \<open>AI Service is not
  initialized.\<close>, and leave the world as it was: no request has been handed to the
  provider and the tool has not been awaited. The same holds through the routes, for a
  request carrying the right key.
\<close>

theorem uninitialised_client_fails_first:
  "tag_trade None settings validate tagging_request w =
     (Inl \<lparr>status_code = 500, detail = Literal ''AI Service is not initialized.''\<rparr>, w)
   \<and> chat_with_ai None settings session_id chat_request w =
     (Inl \<lparr>status_code = 500, detail = Literal ''AI Service is not initialized.''\<rparr>, w)
   \<and> route_tag_trade None settings validate (Some (AI_SERVICE_SECRET_KEY settings))
       tagging_request w =
     (Raised \<lparr>status_code = 500, detail = Literal ''AI Service is not initialized.''\<rparr>, w)
   \<and> route_chat None settings (Some (AI_SERVICE_SECRET_KEY settings)) session_id
       chat_request w =
     (Raised \<lparr>status_code = 500, detail = Literal ''AI Service is not initialized.''\<rparr>, w)"
  by (simp add: tag_trade_def chat_with_ai_def route_tag_trade_def route_chat_def
        verify_internal_auth_def respond_def HTTP_500_INTERNAL_SERVER_ERROR_def)

theorem uninitialised_client_fails_first_witness:
  "tag_trade None settings0 validate0 fear_notes world0 =
     (Inl \<lparr>status_code = 500, detail = Literal ''AI Service is not initialized.''\<rparr>,
      \<lparr>provider = 0, gateway_calls = [], tool_invocations = []\<rparr>)
   \<and> chat_with_ai None settings0 ''session-1'' win_rate_request world0 =
     (Inl \<lparr>status_code = 500, detail = Literal ''AI Service is not initialized.''\<rparr>,
      \<lparr>provider = 0, gateway_calls = [], tool_invocations = []\<rparr>)"
  using uninitialised_client_fails_first
      [of settings0 validate0 fear_notes world0 "''session-1''" win_rate_request]
  by (simp add: world0_def)

text \<open>
  C9. On both protected routes, a request whose \<open>X-Microservice-Auth\<close> header is missing
  or differs from the configured secret is rejected with the world left as it was: the
  provider has not been called and the tool has not been awaited. A header that differs
  is answered with status 401 and the fixed detail \<open>Invalid microservice authentication
  key.\<close>, which is the same for every secret and every key sent; a missing header is
  answered by the framework's request validation.
\<close>

theorem bad_auth_rejected_first:
  assumes "header \<noteq> Some (AI_SERVICE_SECRET_KEY settings)"
  shows "route_chat LLM_CLIENT settings header session_id chat_request w =
           (case header of
              None \<Rightarrow> RequestValidationError
            | Some auth_key \<Rightarrow>
                Raised \<lparr>status_code = 401,
                        detail = Literal ''Invalid microservice authentication key.''\<rparr>,
            w)
       \<and> route_tag_trade LLM_CLIENT settings validate header tagging_request w =
           (case header of
              None \<Rightarrow> RequestValidationError
            | Some auth_key \<Rightarrow>
                Raised \<lparr>status_code = 401,
                        detail = Literal ''Invalid microservice authentication key.''\<rparr>,
            w)"
  using assms
  by (simp add: route_chat_def route_tag_trade_def verify_internal_auth_def
        HTTP_401_UNAUTHORIZED_def split: option.split)

theorem bad_auth_rejected_first_witness:
  "route_chat (Some (scripted [text_answer ''Hello.''])) settings0 (Some ''guess'')
     ''session-1'' win_rate_request world0 =
     (Raised \<lparr>status_code = 401,
              detail = Literal ''Invalid microservice authentication key.''\<rparr>, world0)
   \<and> route_tag_trade (Some (scripted [text_answer ''Hello.''])) settings0 validate0 None
       fear_notes world0 =
     (RequestValidationError, world0)"
proof -
  have h1: "Some ''guess'' \<noteq> Some (AI_SERVICE_SECRET_KEY settings0)"
    by (simp add: settings0_def)
  have h2: "None \<noteq> Some (AI_SERVICE_SECRET_KEY settings0)"
    by simp
  from bad_auth_rejected_first
         [where header = "Some ''guess''" and settings = settings0
            and LLM_CLIENT = "Some (scripted [text_answer ''Hello.''])"
            and session_id = "''session-1''" and chat_request = win_rate_request
            and w = world0 and validate = validate0 and tagging_request = fear_notes, OF h1]
       bad_auth_rejected_first
         [where header = None and settings = settings0
            and LLM_CLIENT = "Some (scripted [text_answer ''Hello.''])"
            and session_id = "''session-1''" and chat_request = win_rate_request
            and w = world0 and validate = validate0 and tagging_request = fear_notes, OF h2]
  show ?thesis
    by simp
qed

text \<open>
  C10. Two chat requests that differ only in the \<open>session_id\<close> of the path, run against
  the same client from the same world, give the same result and the same world after
  the run: the same requests handed to the provider, the same tool invocations, the same
  ChatMessage or error. This holds for the handler and for the route.
\<close>

theorem session_id_has_no_effect:
  "chat_with_ai LLM_CLIENT settings session_id request w =
     chat_with_ai LLM_CLIENT settings session_id' request w
   \<and> route_chat LLM_CLIENT settings header session_id request w =
     route_chat LLM_CLIENT settings header session_id' request w"
proof -
  have handler: "chat_with_ai LLM_CLIENT settings session_id request w =
                   chat_with_ai LLM_CLIENT settings session_id' request w"
    by (simp add: chat_with_ai_def)
  show ?thesis
    unfolding route_chat_def handler by simp
qed

theorem session_id_has_no_effect_witness:
  "chat_with_ai (Some (scripted [tool_call_answer ''get_user_trade_summary'' ''u1'',
                                 text_answer ''Your win rate is 70%.'']))
     settings0 ''session-1'' win_rate_request world0 =
   chat_with_ai (Some (scripted [tool_call_answer ''get_user_trade_summary'' ''u1'',
                                 text_answer ''Your win rate is 70%.'']))
     settings0 ''another-session'' win_rate_request world0"
  using session_id_has_no_effect
      [of "Some (scripted [tool_call_answer ''get_user_trade_summary'' ''u1'',
                           text_answer ''Your win rate is 70%.''])"
          settings0 "''session-1''" win_rate_request world0 "''another-session''" None]
  by simp

end
